theory Spec2Isabelle
  imports Complex_Main
begin

section \<open>Data model\<close>

text \<open>
  The plugin \<^verbatim>\<open>src/index.js\<close> keeps its state in the variables of the closure
  \<^verbatim>\<open>module.exports = function (app)\<close>. JavaScript numbers are modelled as exact reals
  (coordinates, distances, the interval) and clock readings as integers (milliseconds since
  the epoch, as \<^verbatim>\<open>Date.now()\<close> returns them). Logging through \<^verbatim>\<open>app.debug\<close> and
  \<^verbatim>\<open>app.setPluginStatus\<close> writes no variable of the closure and is left out, except where
  building the logged string can raise.
\<close>

record position =
  latitude :: real
  longitude :: real

definition CHECK_POSITION_EVERY_N_MINUTE :: nat where
  "CHECK_POSITION_EVERY_N_MINUTE = 1"

definition KEEP_N_POSITIONS :: nat where
  "KEEP_N_POSITIONS = 30"

definition MAX_DISTANCE :: real where
  "MAX_DISTANCE = 1 / 10"

section \<open>Geodesic distance\<close>

text \<open>
  \<^verbatim>\<open>calculateDistance\<close> (lines 38-57). \<^verbatim>\<open>Math.sin\<close>, \<^verbatim>\<open>Math.cos\<close> and \<^verbatim>\<open>Math.acos\<close> are the
  exact functions \<^const>\<open>sin\<close>, \<^const>\<open>cos\<close> and \<^const>\<open>arccos\<close>; each reassignment of
  \<^verbatim>\<open>dist\<close> is one binding of the \<open>let\<close>.
\<close>

definition lawOfCosines :: "real \<Rightarrow> real \<Rightarrow> real \<Rightarrow> real \<Rightarrow> real" where
  "lawOfCosines lat1 lon1 lat2 lon2 =
     (let radlat1 = pi * lat1 / 180;
          radlat2 = pi * lat2 / 180;
          theta = lon1 - lon2;
          radtheta = pi * theta / 180
      in sin radlat1 * sin radlat2 + cos radlat1 * cos radlat2 * cos radtheta)"

definition calculateDistance :: "real \<Rightarrow> real \<Rightarrow> real \<Rightarrow> real \<Rightarrow> real" where
  "calculateDistance lat1 lon1 lat2 lon2 =
     (if lat1 = lat2 \<and> lon1 = lon2 then 0
      else
        let dist0 = lawOfCosines lat1 lon1 lat2 lon2;
            dist1 = (if dist0 > 1 then 1 else dist0);
            dist2 = arccos dist1;
            dist3 = dist2 * 180 / pi;
            dist4 = dist3 * 60 * 1.1515;
            dist5 = dist4 * 0.8684
        in dist5)"

subsection \<open>The arccosine outside its domain\<close>

text \<open>
  The program computes the value of line 47 in double arithmetic, where the rounded sum
  need not lie between -1 and 1, and \<^verbatim>\<open>Math.acos\<close> returns \<^verbatim>\<open>NaN\<close> for an argument above 1
  or below -1. \<open>jsnum\<close> is a JavaScript number that is either \<^verbatim>\<open>NaN\<close> or finite;
  \<open>distanceFromCosine\<close> is lines 48-55 applied to whatever value \<^verbatim>\<open>dist\<close> has after line
  47, with \<^verbatim>\<open>NaN\<close> carried through the arithmetic of lines 52-54 as the language does.
\<close>

datatype jsnum = NaN | Finite real

definition Math_acos :: "real \<Rightarrow> jsnum" where
  "Math_acos x = (if x > 1 \<or> x < - 1 then NaN else Finite (arccos x))"

definition timesJS :: "jsnum \<Rightarrow> real \<Rightarrow> jsnum" where
  "timesJS a k = (case a of NaN \<Rightarrow> NaN | Finite x \<Rightarrow> Finite (x * k))"

definition divideJS :: "jsnum \<Rightarrow> real \<Rightarrow> jsnum" where
  "divideJS a k = (case a of NaN \<Rightarrow> NaN | Finite x \<Rightarrow> Finite (x / k))"

definition distanceFromCosine :: "real \<Rightarrow> jsnum" where
  "distanceFromCosine dist0 =
     (let dist1 = (if dist0 > 1 then 1 else dist0);
          dist2 = Math_acos dist1;
          dist3 = divideJS (timesJS dist2 180) pi;
          dist4 = timesJS (timesJS dist3 60) 1.1515;
          dist5 = timesJS dist4 0.8684
      in dist5)"

section \<open>Path length\<close>

text \<open>
  \<^verbatim>\<open>calculateDistanceOfPath\<close> (lines 59-69). The \<^verbatim>\<open>for\<close> loop is \<open>pathLoop\<close>: \<open>i\<close> is the
  loop counter and \<open>distance\<close> the accumulator; the loop reads \<^verbatim>\<open>path[i]\<close> and
  \<^verbatim>\<open>path[i-1]\<close> only for \<open>1 \<le> i < length path\<close>, so both reads are in range.
\<close>

function pathLoop :: "position list \<Rightarrow> nat \<Rightarrow> real \<Rightarrow> real" where
  "pathLoop path i distance =
     (if i < length path
      then pathLoop path (i + 1)
             (distance + calculateDistance (latitude (path ! i)) (longitude (path ! i))
                           (latitude (path ! (i - 1))) (longitude (path ! (i - 1))))
      else distance)"
  by pat_completeness auto
termination
  by (relation "measure (\<lambda>(path, i, distance). length path - i)") auto

declare pathLoop.simps [simp del]

definition calculateDistanceOfPath :: "position list \<Rightarrow> real" where
  "calculateDistanceOfPath path =
     (if length path < 2 then 0 else pathLoop path 1 0)"

section \<open>The position source\<close>

text \<open>
  \<^verbatim>\<open>app.getSelfPath(key)\<close> returns the server's last datum for a path, or nothing. A datum
  carries the time of the fix (the milliseconds that \<^verbatim>\<open>new Date(data.timestamp)\<close> yields)
  and its value, which may itself be \<^verbatim>\<open>null\<close> (\<open>None\<close>). \<open>selfPath\<close> is the server's store
  at the moment of the call.
\<close>

record datum =
  timestamp :: int
  val :: "position option"

type_synonym selfPath = "string \<Rightarrow> datum option"

text \<open>\<^verbatim>\<open>getKeyValue\<close> (lines 122-135); \<open>now\<close> is the reading of \<^verbatim>\<open>new Date()\<close>.\<close>

definition getKeyValue :: "selfPath \<Rightarrow> int \<Rightarrow> string \<Rightarrow> real \<Rightarrow> position option" where
  "getKeyValue app now key maxAge =
     (case app key of
        None \<Rightarrow> None
      | Some data \<Rightarrow>
          let ts = timestamp data;
              age = real_of_int (now - ts) / 1000
          in if age \<le> maxAge then val data else None)"

section \<open>Scheduler state\<close>

text \<open>
  The closure variables of lines 25-32 that the scheduling logic reads or writes.
  \<open>lastSpeedTestDate\<close> and \<open>lastSpeedTestPosition\<close> start \<^verbatim>\<open>undefined\<close> (\<open>None\<close>).
  \<open>timeSinceLastSpeedTest\<close> is never declared: the assignment of line 168 creates it as a
  global of the process (the module is not in strict mode), and reading it before that
  assignment raises a ReferenceError; \<open>None\<close> stands for "not created yet".
  \<^verbatim>\<open>website\<close> and \<^verbatim>\<open>equipment\<close> are passed through to the report unread and are left out.
\<close>

record state =
  positions :: "position list"
  lastSpeedTestDate :: "int option"
  lastSpeedTestPosition :: "position option"
  interval :: real
  testOnMove :: bool
  timeSinceLastSpeedTest :: "int option"

datatype error = TypeError | ReferenceError

text \<open>Truthiness of \<^verbatim>\<open>lastSpeedTestDate\<close>: \<^verbatim>\<open>undefined\<close> and the number 0 are falsy.\<close>

definition truthyDate :: "int option \<Rightarrow> bool" where
  "truthyDate d = (case d of None \<Rightarrow> False | Some t \<Rightarrow> t \<noteq> 0)"

text \<open>
  \<^verbatim>\<open>plugin.start\<close>, lines 138-148: without the four consents nothing is scheduled; otherwise
  the interval is clamped into 8..84 hours. The window and the last test are not touched.
\<close>

record options =
  eula :: bool
  tos :: bool
  privacy :: bool
  gdpr :: bool
  opt_interval :: real
  opt_testOnMove :: bool

definition start :: "options \<Rightarrow> state \<Rightarrow> state option" where
  "start opts s =
     (if \<not> eula opts \<or> \<not> tos opts \<or> \<not> privacy opts \<or> \<not> gdpr opts then None
      else
        let interval1 = min (opt_interval opts) 84;
            interval2 = max interval1 8
        in Some (s\<lparr>interval := interval2, testOnMove := opt_testOnMove opts\<rparr>))"

section \<open>The periodic tick\<close>

text \<open>Lines 154-155: \<^verbatim>\<open>positions.unshift(...)\<close>, then \<^verbatim>\<open>positions.slice(0, KEEP_N_POSITIONS)\<close>.\<close>

definition recordPosition :: "position \<Rightarrow> position list \<Rightarrow> position list" where
  "recordPosition p ps =
     take KEEP_N_POSITIONS (\<lparr>latitude = latitude p, longitude = longitude p\<rparr> # ps)"

text \<open>The condition of line 158, on the window and its path length.\<close>

definition isStationary :: "position list \<Rightarrow> bool" where
  "isStationary ps =
     (length ps \<ge> KEEP_N_POSITIONS \<and> calculateDistanceOfPath ps \<le> MAX_DISTANCE)"

text \<open>Lines 159-165.\<close>

definition distanceFromLastSpeedTest :: "position \<Rightarrow> state \<Rightarrow> real" where
  "distanceFromLastSpeedTest p s =
     (case lastSpeedTestPosition s of
        None \<Rightarrow> 0
      | Some l \<Rightarrow> calculateDistance (latitude p) (longitude p) (latitude l) (longitude l))"

text \<open>
  Lines 166-169. The local \<^verbatim>\<open>timeSinceSpeedTest\<close> of line 166 is never read; line 168
  assigns the undeclared \<^verbatim>\<open>timeSinceLastSpeedTest\<close>. \<open>dateNow\<close> is the reading of
  \<^verbatim>\<open>Date.now()\<close> there.
\<close>

definition assignTimeSince :: "int \<Rightarrow> state \<Rightarrow> state" where
  "assignTimeSince dateNow s =
     (case lastSpeedTestDate s of
        None \<Rightarrow> s
      | Some t \<Rightarrow>
          if truthyDate (Some t) then s\<lparr>timeSinceLastSpeedTest := Some (dateNow - t)\<rparr> else s)"

definition readTimeSince :: "state \<Rightarrow> error + int" where
  "readTimeSince s =
     (case timeSinceLastSpeedTest s of None \<Rightarrow> Inl ReferenceError | Some t \<Rightarrow> Inr t)"

text \<open>The condition of lines 170-173, with the short-circuit order of \<^verbatim>\<open>||\<close> and \<^verbatim>\<open>&&\<close>.\<close>

definition shouldTest :: "real \<Rightarrow> state \<Rightarrow> error + bool" where
  "shouldTest moved s =
     (if testOnMove s \<and> moved \<ge> 1 then Inr True
      else if \<not> truthyDate (lastSpeedTestDate s) then Inr True
      else case readTimeSince s of
             Inl e \<Rightarrow> Inl e
           | Inr t \<Rightarrow> Inr (real_of_int t > interval s * 60 * 60 * 1000))"

text \<open>
  The callback of \<^verbatim>\<open>setInterval\<close> (lines 151-186), run with the store \<open>app\<close>. The clock
  is read twice: \<open>now\<close> by \<^verbatim>\<open>getKeyValue\<close> and \<open>dateNow\<close> by line 168. It returns the new
  state and the argument of \<^verbatim>\<open>doSpeedTest\<close> when that is called, or the exception that
  leaves the callback. Line 153 reads \<^verbatim>\<open>position.latitude\<close>
  of what \<^verbatim>\<open>getKeyValue\<close> returned, which raises a TypeError on \<^verbatim>\<open>null\<close>; line 180 reads
  \<^verbatim>\<open>timeSinceLastSpeedTest\<close> again for the log.
\<close>

definition tick ::
    "selfPath \<Rightarrow> int \<Rightarrow> int \<Rightarrow> state \<Rightarrow> error + (state \<times> position option)" where
  "tick app now dateNow s =
     (case getKeyValue app now ''navigation.position'' 60 of
        None \<Rightarrow> Inl TypeError
      | Some position \<Rightarrow>
          let s1 = s\<lparr>positions := recordPosition position (positions s)\<rparr>
          in if isStationary (positions s1) then
               let moved = distanceFromLastSpeedTest position s1;
                   s2 = assignTimeSince dateNow s1
               in case shouldTest moved s2 of
                    Inl e \<Rightarrow> Inl e
                  | Inr True \<Rightarrow> Inr (s2\<lparr>positions := []\<rparr>, Some position)
                  | Inr False \<Rightarrow>
                      (case readTimeSince s2 of
                         Inl e \<Rightarrow> Inl e
                       | Inr t \<Rightarrow> Inr (s2, None))
             else Inr (s1, None))"

section \<open>Measurement and submission\<close>

text \<open>
  \<^verbatim>\<open>doSpeedTest\<close> (lines 92-120) awaits the measurement. When it settles with results the
  report is handed to \<^verbatim>\<open>submitDataToServer\<close>; when it throws, the \<^verbatim>\<open>catch\<close> only logs.
  Neither path writes a closure variable. The result is the state and the report to
  post, if any.
\<close>

record results =
  upload :: real
  download :: real
  isp :: string

record report =
  rep_position :: position
  rep_results :: results

definition doSpeedTest :: "position \<Rightarrow> string + results \<Rightarrow> state \<Rightarrow> state \<times> report option" where
  "doSpeedTest p outcome s =
     (case outcome of
        Inl err \<Rightarrow> (s, None)
      | Inr r \<Rightarrow> (s, Some \<lparr>rep_position = p, rep_results = r\<rparr>))"

text \<open>
  The callback of \<^verbatim>\<open>request\<close> in \<^verbatim>\<open>submitDataToServer\<close> (lines 78-89). The reply is either
  an error or a response with its status code; \<open>dateNow\<close> is the reading of \<^verbatim>\<open>Date.now()\<close>
  at line 80, \<open>now\<close> the one \<^verbatim>\<open>getKeyValue\<close> takes right after, and \<open>app\<close> the store at that
  moment.
\<close>

definition submitCallback ::
    "string + nat \<Rightarrow> selfPath \<Rightarrow> int \<Rightarrow> int \<Rightarrow> state \<Rightarrow> state" where
  "submitCallback reply app dateNow now s =
     (case reply of
        Inl err \<Rightarrow> s
      | Inr statusCode \<Rightarrow>
          if statusCode = 200 then
            let s1 = s\<lparr>lastSpeedTestDate := Some dateNow\<rparr>
            in case getKeyValue app now ''navigation.position'' 60 of
                 Some p \<Rightarrow> s1\<lparr>lastSpeedTestPosition := Some p\<rparr>
               | None \<Rightarrow> s1
          else s)"

text \<open>A measurement that settles, followed by the reply to its submission if one was sent.\<close>

definition measureAndSubmit ::
    "position \<Rightarrow> string + results \<Rightarrow> string + nat \<Rightarrow> selfPath \<Rightarrow> int \<Rightarrow> int \<Rightarrow> state
       \<Rightarrow> state" where
  "measureAndSubmit p outcome reply app dateNow now s =
     (case doSpeedTest p outcome s of
        (s1, None) \<Rightarrow> s1
      | (s1, Some data) \<Rightarrow> submitCallback reply app dateNow now s1)"

text \<open>A run of record operations on a window, oldest sample first.\<close>

definition recordAll :: "position list \<Rightarrow> position list \<Rightarrow> position list" where
  "recordAll ps w = foldl (\<lambda>w p. recordPosition p w) w ps"

section \<open>The decision rule in the specification's words\<close>

text \<open>
  The specification's scheduler is \<open>Idle\<close> while no test has been recorded. It triggers
  when it is idle, or the time since the last test exceeds the minimum interval (hours,
  compared in milliseconds), or test-on-move is enabled and the vessel is at least one
  nautical mile from the position of the last test.
\<close>

definition Idle :: "state \<Rightarrow> bool" where
  "Idle s = (lastSpeedTestDate s = None)"

definition elapsedExceedsInterval :: "int \<Rightarrow> state \<Rightarrow> bool" where
  "elapsedExceedsInterval dateNow s =
     (case lastSpeedTestDate s of
        None \<Rightarrow> False
      | Some t \<Rightarrow> real_of_int (dateNow - t) > interval s * 3600000)"

definition movedSinceLastTest :: "position \<Rightarrow> state \<Rightarrow> bool" where
  "movedSinceLastTest p s =
     (case lastSpeedTestPosition s of
        None \<Rightarrow> False
      | Some l \<Rightarrow> calculateDistance (latitude p) (longitude p) (latitude l) (longitude l) \<ge> 1)"

definition triggerRule :: "int \<Rightarrow> position \<Rightarrow> state \<Rightarrow> bool" where
  "triggerRule dateNow p s =
     (Idle s \<or> elapsedExceedsInterval dateNow s \<or> (testOnMove s \<and> movedSinceLastTest p s))"

text \<open>
  The value the condition of lines 170-173 takes once line 168 has run, as a proposition on
  the state before the tick.
\<close>

definition decision :: "int \<Rightarrow> position \<Rightarrow> state \<Rightarrow> bool" where
  "decision dateNow p s =
     ((testOnMove s \<and> distanceFromLastSpeedTest p s \<ge> 1) \<or>
      \<not> truthyDate (lastSpeedTestDate s) \<or> elapsedExceedsInterval dateNow s)"

text \<open>
  Reading the result of a tick: did it raise, did it call \<^verbatim>\<open>doSpeedTest\<close>, which window
  did it leave.
\<close>

definition raised :: "error + (state \<times> position option) \<Rightarrow> bool" where
  "raised r = (case r of Inl e \<Rightarrow> True | Inr x \<Rightarrow> False)"

definition triggered :: "error + (state \<times> position option) \<Rightarrow> bool" where
  "triggered r = (case r of Inl e \<Rightarrow> False | Inr x \<Rightarrow> snd x \<noteq> None)"

definition windowAfter :: "error + (state \<times> position option) \<Rightarrow> position list option" where
  "windowAfter r = (case r of Inl e \<Rightarrow> None | Inr x \<Rightarrow> Some (positions (fst x)))"

section \<open>Concrete inputs\<close>

text \<open>
  A vessel at rest at latitude 0, longitude 0; \<open>nearby\<close> is 0.02 degrees of latitude (1.2
  nautical miles) to the north. The stores: \<open>freshFix\<close> holds a position taken at clock
  100000, so 20 seconds old at clock 120000 and 50 seconds old at clock 150000;
  \<open>staleFix\<close> one that is 70 seconds old at clock 120000; \<open>twoHoursFix\<close> and
  \<open>nineHoursFix\<close> one that is 20 seconds old at clocks 7350000 and 32550000; \<open>nullFix\<close> a
  fresh datum without a value; \<open>noFix\<close> no position at all.

  The states: \<open>moored\<close> has 29 samples at the same place and no test yet; \<open>measuring\<close> is
  \<open>moored\<close> right after its next tick has started a measurement; \<open>tested\<close> has its last
  test recorded at clock 150000 at the same place, two hours before clock 7350000 and nine
  hours before clock 32550000; \<open>testedNearby\<close> has it recorded at \<open>nearby\<close>.
\<close>

definition origin :: position where
  "origin = \<lparr>latitude = 0, longitude = 0\<rparr>"

definition nearby :: position where
  "nearby = \<lparr>latitude = 1 / 50, longitude = 0\<rparr>"

definition fixAt :: "int \<Rightarrow> position option \<Rightarrow> selfPath" where
  "fixAt ts v key =
     (if key = ''navigation.position'' then Some \<lparr>timestamp = ts, val = v\<rparr> else None)"

definition freshFix :: selfPath where
  "freshFix = fixAt 100000 (Some origin)"

definition staleFix :: selfPath where
  "staleFix = fixAt 50000 (Some origin)"

definition twoHoursFix :: selfPath where
  "twoHoursFix = fixAt 7330000 (Some origin)"

definition nineHoursFix :: selfPath where
  "nineHoursFix = fixAt 32530000 (Some origin)"

definition nullFix :: selfPath where
  "nullFix = fixAt 100000 None"

definition noFix :: selfPath where
  "noFix key = None"

definition moored :: state where
  "moored = \<lparr>positions = replicate 29 origin, lastSpeedTestDate = None,
             lastSpeedTestPosition = None, interval = 8, testOnMove = True,
             timeSinceLastSpeedTest = None\<rparr>"

definition measuring :: state where
  "measuring = moored\<lparr>positions := []\<rparr>"

definition tested :: state where
  "tested = moored\<lparr>lastSpeedTestDate := Some 150000, lastSpeedTestPosition := Some origin\<rparr>"

definition testedNearby :: state where
  "testedNearby = moored\<lparr>lastSpeedTestDate := Some 150000, lastSpeedTestPosition := Some nearby\<rparr>"

definition someResults :: results where
  "someResults = \<lparr>upload = 1000000, download = 5000000, isp = ''Harbour WiFi''\<rparr>"

section \<open>Distance and path length\<close>

lemma calculateDistance_same: "calculateDistance lat lon lat lon = 0"
  by (simp add: calculateDistance_def)

text \<open>
  In exact arithmetic the argument of \<^const>\<open>arccos\<close> stays within its domain, so the model
  never reads \<^const>\<open>arccos\<close> where it is unspecified, and the distance is not negative.
\<close>

lemma lawOfCosines_bounds:
  "- 1 \<le> lawOfCosines lat1 lon1 lat2 lon2 \<and> lawOfCosines lat1 lon1 lat2 lon2 \<le> 1"
proof -
  define a where "a = pi * lat1 / 180"
  define b where "b = pi * lat2 / 180"
  define c where "c = cos (pi * (lon1 - lon2) / 180)"
  have c: "- 1 \<le> c" "c \<le> 1" by (simp_all add: c_def)
  have e: "lawOfCosines lat1 lon1 lat2 lon2 = sin a * sin b + cos a * cos b * c"
    by (simp add: lawOfCosines_def Let_def a_def b_def c_def)
  have m: "cos (a - b) = cos a * cos b + sin a * sin b" by (simp add: cos_diff)
  have p: "cos (a + b) = cos a * cos b - sin a * sin b" by (simp add: cos_add)
  have m1: "- 1 \<le> cos (a - b)" "cos (a - b) \<le> 1" by simp_all
  have p1: "- 1 \<le> cos (a + b)" "cos (a + b) \<le> 1" by simp_all
  show ?thesis
  proof (cases "0 \<le> cos a * cos b")
    case True
    then have "cos a * cos b * c \<le> cos a * cos b" "- (cos a * cos b) \<le> cos a * cos b * c"
      using c mult_left_mono[of c 1 "cos a * cos b"] mult_left_mono[of "-1" c "cos a * cos b"]
      by simp_all
    then show ?thesis using m p m1 p1 e by linarith
  next
    case False
    then have n: "cos a * cos b \<le> 0" by simp
    have "cos a * cos b * c \<le> - (cos a * cos b)" "cos a * cos b \<le> cos a * cos b * c"
      using c n mult_left_mono_neg[of "-1" c "cos a * cos b"]
        mult_left_mono_neg[of c 1 "cos a * cos b"]
      by simp_all
    then show ?thesis using m p m1 p1 e by linarith
  qed
qed

lemma calculateDistance_nonneg: "0 \<le> calculateDistance lat1 lon1 lat2 lon2"
proof -
  let ?d = "lawOfCosines lat1 lon1 lat2 lon2"
  have "0 \<le> arccos (if ?d > 1 then 1 else ?d)"
    using lawOfCosines_bounds[of lat1 lon1 lat2 lon2] by (auto intro: arccos_lbound)
  then show ?thesis
    by (simp add: calculateDistance_def Let_def)
qed

text \<open>
  On the value that exact arithmetic gives line 47, lines 48-55 never meet \<^verbatim>\<open>NaN\<close> and
  return the distance of the model above.
\<close>

lemma distanceFromCosine_exact:
  assumes "lat1 \<noteq> lat2 \<or> lon1 \<noteq> lon2"
  shows "distanceFromCosine (lawOfCosines lat1 lon1 lat2 lon2)
           = Finite (calculateDistance lat1 lon1 lat2 lon2)"
proof -
  let ?d = "lawOfCosines lat1 lon1 lat2 lon2"
  have b: "- 1 \<le> ?d" "?d \<le> 1"
    using lawOfCosines_bounds[of lat1 lon1 lat2 lon2] by simp_all
  then have "Math_acos ?d = Finite (arccos ?d)"
    by (simp add: Math_acos_def)
  then show ?thesis
    using assms b
    by (auto simp add: distanceFromCosine_def calculateDistance_def timesJS_def divideJS_def
          Let_def)
qed

text \<open>
  C7. The distance is claimed to be at least 0 for every pair of points. Identical points
  do give 0, and a value of line 47 above 1 is brought back to 1, which gives 0. But the
  guard of lines 48-50 is one-sided: for every value of line 47 below -1, which the
  rounded sum reaches for some antipodal pairs, \<^verbatim>\<open>Math.acos\<close> returns \<^verbatim>\<open>NaN\<close> and that is the
  result, not a number at least 0.
\<close>

theorem acos_guard_upper_only:
  "calculateDistance lat lon lat lon = 0 \<and>
   (1 < d \<longrightarrow> distanceFromCosine d = Finite 0) \<and>
   (d < - 1 \<longrightarrow> distanceFromCosine d = NaN)"
  by (simp add: calculateDistance_same distanceFromCosine_def Math_acos_def timesJS_def
       divideJS_def)

theorem acos_guard_upper_only_witness:
  "(1::real) < 1 + 1 / 2 ^ 52 \<and> distanceFromCosine (1 + 1 / 2 ^ 52) = Finite 0 \<and>
   - 1 - 1 / 2 ^ 52 < (- 1::real) \<and> distanceFromCosine (- 1 - 1 / 2 ^ 52) = NaN \<and>
   distanceFromCosine (- 1) = Finite (180 * 60 * 1.1515 * 0.8684)"
  using acos_guard_upper_only[of 0 0 "1 + 1 / 2 ^ 52"]
    acos_guard_upper_only[of 0 0 "- 1 - 1 / 2 ^ 52"]
  by (simp add: distanceFromCosine_def Math_acos_def timesJS_def divideJS_def)

lemma lawOfCosines_sym: "lawOfCosines lat1 lon1 lat2 lon2 = lawOfCosines lat2 lon2 lat1 lon1"
proof -
  have "cos (pi * (lon1 - lon2) / 180) = cos (- (pi * (lon2 - lon1) / 180))"
    by (simp add: algebra_simps diff_divide_distrib)
  then have "cos (pi * (lon1 - lon2) / 180) = cos (pi * (lon2 - lon1) / 180)"
    by (simp only: cos_minus)
  then show ?thesis by (simp add: lawOfCosines_def Let_def mult.commute)
qed

lemma near_distance: "calculateDistance 0 0 (1 / 50) 0 = 1.19995512"
proof -
  have l: "lawOfCosines 0 0 (1 / 50) 0 = cos (pi / 9000)"
    by (simp add: lawOfCosines_def Let_def)
  have c: "\<not> 1 < cos (pi / 9000)"
    using cos_le_one[of "pi / 9000"] by (simp only: not_less)
  have a: "arccos (cos (pi / 9000)) = pi / 9000"
    by (rule arccos_cos) simp_all
  show ?thesis
    by (simp add: calculateDistance_def Let_def l c a)
qed

lemma pathLoop_sum:
  "pathLoop path i d =
     d + (\<Sum>k = i..<length path.
            calculateDistance (latitude (path ! k)) (longitude (path ! k))
              (latitude (path ! (k - 1))) (longitude (path ! (k - 1))))"
proof (induction path i d rule: pathLoop.induct)
  case (1 path i distance)
  show ?case
  proof (cases "i < length path")
    case True
    with "1" show ?thesis
      by (subst pathLoop.simps) (simp add: sum.atLeast_Suc_lessThan add.assoc)
  next
    case False
    then show ?thesis by (subst pathLoop.simps) simp
  qed
qed

lemma path_replicate: "calculateDistanceOfPath (replicate n p) = 0"
  by (auto simp add: calculateDistanceOfPath_def pathLoop_sum calculateDistance_same
        intro!: sum.neutral)

text \<open>
  C9. The distance is symmetric: swapping the two points does not change it.
\<close>

theorem calculateDistance_symmetric:
  "calculateDistance lat1 lon1 lat2 lon2 = calculateDistance lat2 lon2 lat1 lon1"
  using lawOfCosines_sym[of lat1 lon1 lat2 lon2] by (auto simp add: calculateDistance_def Let_def)

text \<open>
  C8. The path length is 0 for a path of fewer than two points (in particular for the
  empty path and for a single point); otherwise it is the sum, in path order, of the
  distance between each point and the one before it.
\<close>

theorem calculateDistanceOfPath_sum:
  "calculateDistanceOfPath [] = 0 \<and> calculateDistanceOfPath [p] = 0 \<and>
   calculateDistanceOfPath path =
     (if length path < 2 then 0
      else \<Sum>k = 1..<length path.
             calculateDistance (latitude (path ! k)) (longitude (path ! k))
               (latitude (path ! (k - 1))) (longitude (path ! (k - 1))))"
  by (simp add: calculateDistanceOfPath_def pathLoop_sum)

section \<open>The position window\<close>

lemma recordPosition_Cons: "recordPosition p w = p # take 29 w"
  by (simp add: recordPosition_def KEEP_N_POSITIONS_def)

lemma take_Cons_take: "take n (x # take n xs) = take n (x # xs)"
  by (cases n) simp_all

lemma recordAll_take: "recordAll ps (take 30 w) = take 30 (rev ps @ w)"
proof (induction ps arbitrary: w)
  case Nil
  show ?case by (simp add: recordAll_def)
next
  case (Cons p ps)
  have "recordAll (p # ps) (take 30 w) = recordAll ps (recordPosition p (take 30 w))"
    by (simp add: recordAll_def)
  also have "recordPosition p (take 30 w) = take 30 (p # w)"
    by (simp add: recordPosition_def KEEP_N_POSITIONS_def take_Cons_take)
  also have "recordAll ps (take 30 (p # w)) = take 30 (rev ps @ p # w)"
    by (rule Cons.IH)
  finally show ?case by simp
qed

lemma recordPosition_replicate: "recordPosition p (replicate 29 p) = replicate 30 p"
proof -
  have "(30::nat) = Suc 29" by simp
  then have "replicate 30 p = p # replicate 29 p" by (simp only: replicate_Suc)
  then show ?thesis by (simp add: recordPosition_Cons)
qed

lemma isStationary_replicate: "isStationary (replicate 30 p)"
  by (simp add: isStationary_def KEEP_N_POSITIONS_def MAX_DISTANCE_def path_replicate)

section \<open>What a tick does\<close>

lemma getKeyValue_age:
  "getKeyValue app now key 60 =
     (case app key of
        None \<Rightarrow> None
      | Some d \<Rightarrow> if now - timestamp d \<le> 60000 then val d else None)"
  by (auto simp add: getKeyValue_def Let_def split: option.splits)

lemma getKeyValue_fixAt:
  "getKeyValue (fixAt ts v) now ''navigation.position'' 60 = (if now - ts \<le> 60000 then v else None)"
  by (simp add: getKeyValue_age fixAt_def)

lemma getKeyValue_freshFix: "getKeyValue freshFix 120000 ''navigation.position'' 60 = Some origin"
  by (simp add: freshFix_def getKeyValue_fixAt)

lemma getKeyValue_twoHoursFix:
  "getKeyValue twoHoursFix 7350000 ''navigation.position'' 60 = Some origin"
  by (simp add: twoHoursFix_def getKeyValue_fixAt)

lemma getKeyValue_nineHoursFix:
  "getKeyValue nineHoursFix 32550000 ''navigation.position'' 60 = Some origin"
  by (simp add: nineHoursFix_def getKeyValue_fixAt)

lemma getKeyValue_staleFix: "getKeyValue staleFix 120000 ''navigation.position'' 60 = None"
  by (simp add: staleFix_def getKeyValue_fixAt)

lemma getKeyValue_nullFix: "getKeyValue nullFix 120000 ''navigation.position'' 60 = None"
  by (simp add: nullFix_def getKeyValue_fixAt)

lemma getKeyValue_noFix: "getKeyValue noFix now ''navigation.position'' 60 = None"
  by (simp add: getKeyValue_def noFix_def)

text \<open>
  Line 168 has assigned \<^verbatim>\<open>timeSinceLastSpeedTest\<close> whenever the condition of lines 170-173
  or the log of line 180 reads it, so neither raises a ReferenceError.
\<close>

lemma shouldTest_assign:
  "shouldTest moved (assignTimeSince dateNow s) =
     Inr ((testOnMove s \<and> moved \<ge> 1) \<or> \<not> truthyDate (lastSpeedTestDate s) \<or>
          elapsedExceedsInterval dateNow s)"
  by (auto simp add: shouldTest_def assignTimeSince_def readTimeSince_def truthyDate_def
       elapsedExceedsInterval_def split: option.splits)

lemma readTimeSince_assign:
  "truthyDate (lastSpeedTestDate s) \<Longrightarrow> \<exists>t. readTimeSince (assignTimeSince dateNow s) = Inr t"
  by (auto simp add: assignTimeSince_def readTimeSince_def truthyDate_def split: option.splits)

lemma assignTimeSince_positions: "positions (assignTimeSince dateNow s) = positions s"
  by (simp add: assignTimeSince_def split: option.splits)

lemma tick_absent:
  "getKeyValue app now ''navigation.position'' 60 = None \<Longrightarrow> tick app now dateNow s = Inl TypeError"
  by (simp add: tick_def)

lemma tick_fix:
  assumes "getKeyValue app now ''navigation.position'' 60 = Some p"
  shows "tick app now dateNow s =
     (let w = recordPosition p (positions s) in
      if isStationary w then
        if decision dateNow p s
        then Inr (assignTimeSince dateNow (s\<lparr>positions := w\<rparr>)\<lparr>positions := []\<rparr>, Some p)
        else Inr (assignTimeSince dateNow (s\<lparr>positions := w\<rparr>), None)
      else Inr (s\<lparr>positions := w\<rparr>, None))"
proof -
  let ?w = "recordPosition p (positions s)"
  let ?s1 = "s\<lparr>positions := ?w\<rparr>"
  have d: "distanceFromLastSpeedTest p ?s1 = distanceFromLastSpeedTest p s"
    by (simp add: distanceFromLastSpeedTest_def)
  have sh: "shouldTest (distanceFromLastSpeedTest p ?s1) (assignTimeSince dateNow ?s1)
              = Inr (decision dateNow p s)"
    unfolding shouldTest_assign d
    by (simp add: decision_def elapsedExceedsInterval_def split: option.splits)
  show ?thesis
  proof (cases "isStationary ?w")
    case False
    then show ?thesis using assms by (simp add: tick_def Let_def)
  next
    case st: True
    show ?thesis
    proof (cases "decision dateNow p s")
      case True
      then show ?thesis using assms st sh by (simp add: tick_def Let_def)
    next
      case False
      then have "truthyDate (lastSpeedTestDate ?s1)" by (simp add: decision_def)
      from readTimeSince_assign[OF this, of dateNow] obtain t where
        "readTimeSince (assignTimeSince dateNow ?s1) = Inr t" by blast
      then show ?thesis using assms st sh False by (simp add: tick_def Let_def)
    qed
  qed
qed

text \<open>
  The condition of the code and the rule of the specification agree on every state whose
  last-test time is not the epoch itself (\<^verbatim>\<open>Date.now()\<close> returning 0, which is falsy).
\<close>

lemma decision_triggerRule:
  "lastSpeedTestDate s \<noteq> Some 0 \<Longrightarrow> decision dateNow p s = triggerRule dateNow p s"
  by (auto simp add: decision_def triggerRule_def Idle_def truthyDate_def
       movedSinceLastTest_def distanceFromLastSpeedTest_def elapsedExceedsInterval_def
       split: option.splits)

lemma tick_moored:
  "tick freshFix 120000 120000 moored = Inr (measuring, Some origin)"
  by (simp add: tick_fix[OF getKeyValue_freshFix] Let_def)
    (simp add: moored_def measuring_def recordPosition_replicate isStationary_replicate
       decision_def truthyDate_def assignTimeSince_def)

lemma tick_tested:
  "tick twoHoursFix 7350000 7350000 tested =
     Inr (tested\<lparr>positions := replicate 30 origin, timeSinceLastSpeedTest := Some 7200000\<rparr>,
          None)"
  by (simp add: tick_fix[OF getKeyValue_twoHoursFix] Let_def)
    (simp add: tested_def moored_def recordPosition_replicate isStationary_replicate decision_def
       truthyDate_def assignTimeSince_def distanceFromLastSpeedTest_def calculateDistance_same
       elapsedExceedsInterval_def)

lemma measureAndSubmit_positions:
  "positions (measureAndSubmit q outcome reply app dateNow now s) = positions s"
  by (simp add: measureAndSubmit_def doSpeedTest_def submitCallback_def Let_def
       split: sum.splits option.splits)

section \<open>The claims about the window\<close>

text \<open>
  C6. The window never holds more than 30 samples. Recording puts the new sample at the
  front and keeps the 29 newest of the old ones, in their order; a run of record
  operations from the empty window leaves the last 30 samples recorded, newest first; and
  whatever window a tick leaves has at most 30 samples.
\<close>

theorem window_at_most_30:
  "recordPosition p w = p # take 29 w \<and>
   length (recordPosition p w) \<le> 30 \<and>
   recordAll ps [] = take 30 (rev ps) \<and>
   length (recordAll ps []) \<le> 30 \<and>
   (case windowAfter (tick app now dateNow s) of None \<Rightarrow> True | Some w' \<Rightarrow> length w' \<le> 30)"
proof -
  have a: "recordAll ps [] = take 30 (rev ps)"
    using recordAll_take[of ps "[]"] by simp
  have b: "case windowAfter (tick app now dateNow s) of None \<Rightarrow> True | Some w' \<Rightarrow> length w' \<le> 30"
  proof (cases "getKeyValue app now ''navigation.position'' 60")
    case None
    then show ?thesis by (simp add: tick_absent windowAfter_def)
  next
    case (Some q)
    show ?thesis
      by (simp add: tick_fix[OF Some] Let_def windowAfter_def assignTimeSince_positions
            recordPosition_Cons)
  qed
  from a b show ?thesis by (simp add: recordPosition_Cons)
qed

theorem window_at_most_30_witness:
  "recordPosition nearby [origin] = [nearby, origin] \<and>
   recordAll [origin, nearby] [] = [nearby, origin] \<and>
   length (recordPosition origin (replicate 30 nearby)) = 30 \<and>
   recordPosition origin (replicate 30 nearby) = origin # replicate 29 nearby \<and>
   windowAfter (tick twoHoursFix 7350000 7350000 tested) = Some (replicate 30 origin)"
  using window_at_most_30[of nearby "[origin]" "[origin, nearby]" twoHoursFix 7350000 7350000
          tested]
    window_at_most_30[of origin "replicate 30 nearby" "[]" noFix 0 0 moored]
  by (simp add: tick_tested windowAfter_def)

text \<open>
  C5. On a window of at most 30 samples (every window the program builds), the
  stationarity verdict is true exactly when the window holds 30 samples and its path
  length is at most 0.1 nautical miles; a window of fewer than 30 samples is never
  stationary, however close its points are.
\<close>

theorem isStationary_iff:
  "(length w \<le> 30 \<longrightarrow>
      (isStationary w \<longleftrightarrow> length w = 30 \<and> calculateDistanceOfPath w \<le> 1 / 10)) \<and>
   (length w < 30 \<longrightarrow> \<not> isStationary w)"
  by (auto simp add: isStationary_def KEEP_N_POSITIONS_def MAX_DISTANCE_def)

theorem isStationary_iff_witness:
  "length (replicate 30 origin) \<le> 30 \<and> isStationary (replicate 30 origin) \<and>
   length (replicate 29 origin) < 30 \<and> calculateDistanceOfPath (replicate 29 origin) = 0 \<and>
   \<not> isStationary (replicate 29 origin)"
  using isStationary_iff[of "replicate 30 origin"] isStationary_iff[of "replicate 29 origin"]
  by (simp add: path_replicate)

section \<open>The claims about the trigger decision\<close>

text \<open>
  C1. A tick on which the position source returns nothing is claimed to be skipped. The
  callback does not return on such a tick: whether there is no position, the fix is older
  than 60 seconds, or the datum has no value, line 153 reads \<^verbatim>\<open>position.latitude\<close> of
  \<^verbatim>\<open>null\<close> and the callback ends with a TypeError (before any variable is written).
\<close>

theorem tick_without_fix_raises:
  "tick noFix 120000 120000 moored = Inl TypeError \<and>
   tick staleFix 120000 120000 moored = Inl TypeError \<and>
   tick nullFix 120000 120000 moored = Inl TypeError"
  by (simp add: tick_absent getKeyValue_noFix getKeyValue_staleFix getKeyValue_nullFix)

text \<open>
  C3. On a tick that has a position (and whose state does not carry the epoch itself as
  last-test time), the callback returns, and it starts a measurement exactly when the
  window, with the new sample recorded, is stationary and at least one of these holds: no
  test has been recorded, the time since the last test exceeds the interval in hours, or
  test-on-move is enabled and the position is at least 1 nautical mile from that of the
  last test. In particular a tick that is not stationary never starts a measurement.
\<close>

theorem trigger_iff_rule:
  assumes "getKeyValue app now ''navigation.position'' 60 = Some p"
    and "lastSpeedTestDate s \<noteq> Some 0"
  shows "\<not> raised (tick app now dateNow s) \<and>
    (triggered (tick app now dateNow s) \<longleftrightarrow>
       isStationary (recordPosition p (positions s)) \<and> triggerRule dateNow p s)"
  using decision_triggerRule[OF assms(2), of dateNow p]
  by (simp add: tick_fix[OF assms(1)] Let_def raised_def triggered_def)

theorem trigger_iff_rule_witness:
  "getKeyValue freshFix 120000 ''navigation.position'' 60 = Some origin \<and>
   getKeyValue twoHoursFix 7350000 ''navigation.position'' 60 = Some origin \<and>
   getKeyValue nineHoursFix 32550000 ''navigation.position'' 60 = Some origin \<and>
   lastSpeedTestDate moored \<noteq> Some 0 \<and> lastSpeedTestDate tested \<noteq> Some 0 \<and>
   lastSpeedTestDate testedNearby \<noteq> Some 0 \<and>
   \<not> raised (tick freshFix 120000 120000 moored) \<and>
   triggered (tick freshFix 120000 120000 moored) \<and> Idle moored \<and>
   \<not> triggered (tick twoHoursFix 7350000 7350000 tested) \<and>
   \<not> triggerRule 7350000 origin tested \<and>
   triggered (tick nineHoursFix 32550000 32550000 tested) \<and>
   elapsedExceedsInterval 32550000 tested \<and>
   triggered (tick twoHoursFix 7350000 7350000 testedNearby) \<and>
   movedSinceLastTest origin testedNearby \<and>
   \<not> triggered (tick twoHoursFix 7350000 7350000 (testedNearby\<lparr>testOnMove := False\<rparr>)) \<and>
   \<not> isStationary (recordPosition origin (positions measuring)) \<and>
   \<not> triggered (tick freshFix 120000 120000 measuring)"
proof -
  have m: "lastSpeedTestDate moored \<noteq> Some 0" "lastSpeedTestDate measuring \<noteq> Some 0"
    by (simp_all add: moored_def measuring_def)
  have t: "lastSpeedTestDate tested \<noteq> Some 0" by (simp add: tested_def)
  have f: "lastSpeedTestDate testedNearby \<noteq> Some 0"
    "lastSpeedTestDate (testedNearby\<lparr>testOnMove := False\<rparr>) \<noteq> Some 0"
    by (simp_all add: testedNearby_def)
  have st: "isStationary (recordPosition origin (positions moored))"
    "isStationary (recordPosition origin (positions tested))"
    "isStationary (recordPosition origin (positions testedNearby))"
    by (simp_all add: moored_def tested_def testedNearby_def recordPosition_replicate
          isStationary_replicate)
  have ns: "\<not> isStationary (recordPosition origin (positions measuring))"
    by (simp add: isStationary_def recordPosition_Cons KEEP_N_POSITIONS_def measuring_def)
  have i: "Idle moored" "\<not> Idle tested" "\<not> Idle testedNearby"
    by (simp_all add: Idle_def moored_def tested_def testedNearby_def)
  have e: "elapsedExceedsInterval 32550000 tested" "\<not> elapsedExceedsInterval 7350000 tested"
    "\<not> elapsedExceedsInterval 7350000 testedNearby"
    by (simp_all add: elapsedExceedsInterval_def moored_def tested_def testedNearby_def)
  have d: "movedSinceLastTest origin testedNearby" "\<not> movedSinceLastTest origin tested"
    by (simp_all add: movedSinceLastTest_def moored_def tested_def testedNearby_def
          calculateDistance_same origin_def nearby_def near_distance)
  show ?thesis
    using trigger_iff_rule[OF getKeyValue_freshFix m(1), of 120000]
      trigger_iff_rule[OF getKeyValue_freshFix m(2), of 120000]
      trigger_iff_rule[OF getKeyValue_twoHoursFix t, of 7350000]
      trigger_iff_rule[OF getKeyValue_nineHoursFix t, of 32550000]
      trigger_iff_rule[OF getKeyValue_twoHoursFix f(1), of 7350000]
      trigger_iff_rule[OF getKeyValue_twoHoursFix f(2), of 7350000]
      getKeyValue_freshFix getKeyValue_twoHoursFix getKeyValue_nineHoursFix m t f st ns i e d
    by (simp add: triggerRule_def Idle_def elapsedExceedsInterval_def testedNearby_def moored_def)
qed

text \<open>
  C4, as stated, fails: on a stationary tick that decides not to start a measurement (the
  last test was two hours ago at the same place, the interval is 8 hours) the window is
  not reset; it keeps its 30 samples.
\<close>

theorem window_kept_counterexample:
  "isStationary (recordPosition origin (positions tested)) \<and>
   \<not> triggered (tick twoHoursFix 7350000 7350000 tested) \<and>
   windowAfter (tick twoHoursFix 7350000 7350000 tested) = Some (replicate 30 origin) \<and>
   windowAfter (tick twoHoursFix 7350000 7350000 tested) \<noteq> Some []"
  by (simp add: tick_tested triggered_def windowAfter_def)
    (simp add: tested_def moored_def recordPosition_replicate isStationary_replicate)

text \<open>
  C4, amended. On a tick that has a position, the window is reset to empty exactly when a
  measurement is started, and it is reset at that moment, before the measurement runs;
  otherwise the window is the old one with the new sample recorded. The settling of a
  measurement and the reply to its submission never change the window, whatever their
  outcome.
\<close>

theorem window_reset_iff_triggered:
  assumes "getKeyValue app now ''navigation.position'' 60 = Some p"
  shows "windowAfter (tick app now dateNow s) =
           Some (if triggered (tick app now dateNow s) then []
                 else recordPosition p (positions s)) \<and>
         positions (measureAndSubmit q outcome reply app' dateNow' now' s') = positions s'"
  by (simp add: tick_fix[OF assms] Let_def windowAfter_def triggered_def
       assignTimeSince_positions measureAndSubmit_positions)

theorem window_reset_iff_triggered_witness:
  "getKeyValue freshFix 120000 ''navigation.position'' 60 = Some origin \<and>
   getKeyValue twoHoursFix 7350000 ''navigation.position'' 60 = Some origin \<and>
   triggered (tick freshFix 120000 120000 moored) \<and>
   windowAfter (tick freshFix 120000 120000 moored) = Some [] \<and>
   \<not> triggered (tick twoHoursFix 7350000 7350000 tested) \<and>
   windowAfter (tick twoHoursFix 7350000 7350000 tested) = Some (replicate 30 origin) \<and>
   positions (measureAndSubmit origin (Inr someResults) (Inr 200) freshFix 150000 150000
                measuring) = []"
  using window_reset_iff_triggered[OF getKeyValue_freshFix, of 120000 moored origin
          "Inr someResults" "Inr 200" freshFix 150000 150000 measuring]
    window_reset_iff_triggered[OF getKeyValue_twoHoursFix, of 7350000 tested origin
          "Inr someResults" "Inr 200" freshFix 150000 150000 measuring]
    getKeyValue_freshFix getKeyValue_twoHoursFix
  by (simp add: tick_moored tick_tested triggered_def)
    (simp add: tested_def moored_def measuring_def recordPosition_replicate)

section \<open>The claims about the record of the last test\<close>

text \<open>
  C2, as stated, fails: after a measurement that completed, a submission that fails (a
  transport error, or a status other than 200) leaves the record of the last test as it
  was; here it stays absent.
\<close>

theorem failed_submission_counterexample:
  "doSpeedTest origin (Inr someResults) measuring =
     (measuring, Some \<lparr>rep_position = origin, rep_results = someResults\<rparr>) \<and>
   lastSpeedTestDate (measureAndSubmit origin (Inr someResults) (Inl ''ETIMEDOUT'')
                        freshFix 150000 150000 measuring) = None \<and>
   lastSpeedTestPosition (measureAndSubmit origin (Inr someResults) (Inl ''ETIMEDOUT'')
                        freshFix 150000 150000 measuring) = None \<and>
   lastSpeedTestDate (measureAndSubmit origin (Inr someResults) (Inr 500)
                        freshFix 150000 150000 measuring) = None"
  by (simp add: measureAndSubmit_def doSpeedTest_def submitCallback_def measuring_def moored_def)

text \<open>
  C2, amended. For a completed measurement the record of the last test is updated only
  when the submission succeeds (no error and status 200): then the last-test time becomes
  the time of the reply. When the submission fails the whole state, and with it the
  record, is left unchanged, so the measurement does not count for scheduling. A
  measurement that fails changes nothing either.
\<close>

theorem testRecord_updated_only_on_success:
  "(reply = Inr 200 \<longrightarrow>
      lastSpeedTestDate (measureAndSubmit p (Inr r) reply app dateNow now s) = Some dateNow) \<and>
   (reply \<noteq> Inr 200 \<longrightarrow> measureAndSubmit p (Inr r) reply app dateNow now s = s) \<and>
   measureAndSubmit p (Inl err) reply app dateNow now s = s"
  by (auto simp add: measureAndSubmit_def doSpeedTest_def submitCallback_def Let_def
       split: sum.splits option.splits)

theorem testRecord_updated_only_on_success_witness:
  "lastSpeedTestDate
     (measureAndSubmit origin (Inr someResults) (Inr 200) freshFix 150000 150000 measuring)
     = Some 150000 \<and>
   (Inl ''ETIMEDOUT'' :: string + nat) \<noteq> Inr 200 \<and>
   measureAndSubmit origin (Inr someResults) (Inl ''ETIMEDOUT'') freshFix 150000 150000 measuring
     = measuring \<and>
   (Inr 500 :: string + nat) \<noteq> Inr 200 \<and>
   measureAndSubmit origin (Inr someResults) (Inr 500) freshFix 150000 150000 measuring
     = measuring"
  using testRecord_updated_only_on_success[of "Inr 200" origin someResults freshFix 150000
          150000 measuring]
    testRecord_updated_only_on_success[of "Inl ''ETIMEDOUT''" origin someResults freshFix 150000
          150000 measuring]
    testRecord_updated_only_on_success[of "Inr 500" origin someResults freshFix 150000
          150000 measuring]
  by simp

text \<open>
  C10. When a measurement completes and its submission succeeds, the last-test time is
  overwritten with the time of the reply. The last-test position is overwritten only when
  the position source then has a datum at most 60 seconds old that carries a value; with
  no datum, a stale one or one without a value it keeps its previous value, so it can
  belong to an earlier test than the time does.
\<close>

theorem success_overwrites_date_and_fresh_position:
  "lastSpeedTestDate (measureAndSubmit q (Inr r) (Inr 200) app dateNow now s) = Some dateNow \<and>
   lastSpeedTestPosition (measureAndSubmit q (Inr r) (Inr 200) app dateNow now s) =
     (case app ''navigation.position'' of
        None \<Rightarrow> lastSpeedTestPosition s
      | Some d \<Rightarrow>
          if now - timestamp d \<le> 60000
          then (case val d of None \<Rightarrow> lastSpeedTestPosition s | Some p \<Rightarrow> Some p)
          else lastSpeedTestPosition s)"
  by (simp add: measureAndSubmit_def doSpeedTest_def submitCallback_def getKeyValue_age
       split: option.splits)

theorem success_overwrites_date_and_fresh_position_witness:
  "lastSpeedTestDate testedNearby = Some 150000 \<and>
   lastSpeedTestPosition testedNearby = Some nearby \<and>
   lastSpeedTestDate
     (measureAndSubmit origin (Inr someResults) (Inr 200) nineHoursFix 32580000 32580000
        testedNearby) = Some 32580000 \<and>
   lastSpeedTestPosition
     (measureAndSubmit origin (Inr someResults) (Inr 200) nineHoursFix 32580000 32580000
        testedNearby) = Some origin \<and>
   lastSpeedTestDate
     (measureAndSubmit origin (Inr someResults) (Inr 200) nineHoursFix 32600000 32600000
        testedNearby) = Some 32600000 \<and>
   lastSpeedTestPosition
     (measureAndSubmit origin (Inr someResults) (Inr 200) nineHoursFix 32600000 32600000
        testedNearby) = Some nearby \<and>
   lastSpeedTestPosition
     (measureAndSubmit origin (Inr someResults) (Inr 200) nullFix 120000 120000 testedNearby)
     = Some nearby \<and>
   lastSpeedTestPosition
     (measureAndSubmit origin (Inr someResults) (Inr 200) noFix 32580000 32580000 testedNearby)
     = Some nearby"
  using success_overwrites_date_and_fresh_position[of origin someResults nineHoursFix 32580000
          32580000 testedNearby]
    success_overwrites_date_and_fresh_position[of origin someResults nineHoursFix 32600000
          32600000 testedNearby]
    success_overwrites_date_and_fresh_position[of origin someResults nullFix 120000 120000
          testedNearby]
    success_overwrites_date_and_fresh_position[of origin someResults noFix 32580000 32580000
          testedNearby]
  by (simp add: nineHoursFix_def nullFix_def noFix_def fixAt_def testedNearby_def)

end
